theory Spec2Isabelle
  imports Main "HOL-Library.AList"
begin

section \<open>The rgw manager module (src/pybind/mgr/rgw/module.py)\<close>

text \<open>
  The module is the command boundary of the RGW multisite orchestration: every
  handler resolves its arguments, calls one operation of \<^verbatim>\<open>RGWAM(self.env)\<close> and turns
  the outcome into a \<^verbatim>\<open>HandleCommandResult\<close>. The operations of \<^verbatim>\<open>RGWAM\<close>, the classes
  \<^verbatim>\<open>RGWSpec\<close>, \<^verbatim>\<open>PlacementSpec\<close> and \<^verbatim>\<open>RealmToken\<close>, the orchestrator client and the YAML
  loader live outside module.py; the handlers below take them as the fields of an
  environment record and are proved for every environment.

  Conventions of the embedding:
  \<^item> a Python exception is a value of \<open>py_exn\<close>; a call that may raise returns
    \<open>py_exn + 'a\<close> with \<open>Inl\<close> for the exception;
  \<^item> everything outside the module that can be changed (cluster metadata, spawned
    admin-tool processes, deployed daemons) is one world \<open>'w\<close>, threaded through
    every call that can touch it; a handler that returns the world it was given
    has called none of them;
  \<^item> a Python \<^verbatim>\<open>str\<close> is a \<open>string\<close> whose characters are code points below 256;
  \<^item> the calls to \<^verbatim>\<open>self.log\<close> are left out.
\<close>

subsection \<open>Python values, truthiness, exceptions\<close>

datatype py_value =
    PNone
  | PBool bool
  | PInt int
  | PStr string
  | PList "py_value list"
  | PDict "(string \<times> py_value) list"

text \<open>What \<^verbatim>\<open>if v:\<close> and \<^verbatim>\<open>not v\<close> test.\<close>

fun truthy :: "py_value \<Rightarrow> bool" where
  "truthy PNone = False"
| "truthy (PBool b) = b"
| "truthy (PInt n) = (n \<noteq> 0)"
| "truthy (PStr s) = (s \<noteq> [])"
| "truthy (PList xs) = (xs \<noteq> [])"
| "truthy (PDict kvs) = (kvs \<noteq> [])"

text \<open>Truthiness of an \<^verbatim>\<open>Optional[str]\<close> argument: \<^verbatim>\<open>None\<close> and \<^verbatim>\<open>''\<close> are falsy.\<close>

fun truthy_str :: "string option \<Rightarrow> bool" where
  "truthy_str None = False"
| "truthy_str (Some s) = (s \<noteq> [])"

text \<open>
  The exceptions the module meets. A constructor stands for the class and its
  subclasses, as an \<^verbatim>\<open>except\<close> clause matches them; the string is \<^verbatim>\<open>str(e)\<close>.
  \<open>RGWAMException\<close> carries its attributes \<^verbatim>\<open>retcode\<close>, \<^verbatim>\<open>message\<close>, \<^verbatim>\<open>stderr\<close>.
  \<open>OtherError\<close> is any exception that is an instance of none of the classes named.
\<close>

datatype py_exn =
    RGWAMException int string string
  | RuntimeError string
  | OrchestratorError string
  | ImportError string
  | UnboundLocalError string
  | KeyError string
  | OtherError string

fun exn_str :: "py_exn \<Rightarrow> string" where
  "exn_str (RGWAMException rc msg err) = msg"
| "exn_str (RuntimeError s) = s"
| "exn_str (OrchestratorError s) = s"
| "exn_str (ImportError s) = s"
| "exn_str (UnboundLocalError s) = s"
| "exn_str (KeyError s) = s"
| "exn_str (OtherError s) = s"

definition EINVAL :: int where
  "EINVAL = 22"

datatype handle_command_result =
  HandleCommandResult (retval_of: int) (stdout_of: string) (stderr_of: string)

text \<open>
  A handler's \<^verbatim>\<open>except RGWAMException\<close> branch returns the bare tuple
  \<^verbatim>\<open>(e.retcode, e.message, e.stderr)\<close>; \<^verbatim>\<open>HandleCommandResult\<close> is a named tuple of the
  same three positions, so both are the one constructor here.
\<close>

subsection \<open>Service specs\<close>

text \<open>
  Modelled from the spec: \<^verbatim>\<open>PlacementSpec\<close> (ceph.deployment.service_spec) is not in
  module.py; the spec calls it an opaque declarative description (hosts / labels /
  count) that is passed through unmodified.
\<close>

record placement_spec =
  hosts :: "string list"
  label :: "string option"
  count :: "nat option"

text \<open>
  \<^verbatim>\<open>RGWSpec\<close>, with the keyword arguments the two handlers construct it from; an
  argument a handler does not pass keeps its default \<^verbatim>\<open>None\<close>. The field
  \<open>rgw_placement\<close> is the attribute \<^verbatim>\<open>placement\<close>.
\<close>

record rgw_spec =
  rgw_realm :: "string option"
  rgw_zonegroup :: "string option"
  rgw_zone :: "string option"
  rgw_realm_token :: "string option"
  rgw_frontend_port :: "int option"
  rgw_placement :: "placement_spec option"

subsection \<open>The environment of the module\<close>

type_synonym triple = "int \<times> string \<times> string"

text \<open>
  One field per callable that module.py uses and does not define:
  \<^item> \<open>orch_available\<close>: \<^verbatim>\<open>OrchestratorClientMixin.available()\<close>, a status query
    (the third component of its result is discarded by \<^verbatim>\<open>status\<close>);
  \<^item> \<open>mgr_tool_exec\<close>: \<^verbatim>\<open>MgrModule.tool_exec(args=cmd)\<close>, which spawns the admin tool;
  \<^item> \<open>yaml_safe_load_all\<close>: \<^verbatim>\<open>yaml.safe_load_all\<close>, the documents of a buffer in order,
    an empty document being \<open>PNone\<close>;
  \<^item> \<open>rgwspec_from_json\<close>, \<open>rgwspec_validate\<close>, \<open>placement_from_string\<close>:
    \<^verbatim>\<open>RGWSpec.from_json\<close>, \<^verbatim>\<open>RGWSpec.validate\<close>, \<^verbatim>\<open>PlacementSpec.from_string\<close>;
  \<^item> the remaining fields: the methods of \<^verbatim>\<open>RGWAM(self.env)\<close> of the same names.
\<close>

record 'w rgw_env =
  orch_available :: "'w \<Rightarrow> py_exn + bool \<times> string"
  mgr_tool_exec :: "string list \<Rightarrow> 'w \<Rightarrow> triple \<times> 'w"
  yaml_safe_load_all :: "string \<Rightarrow> py_exn + py_value list"
  rgwspec_from_json :: "py_value \<Rightarrow> py_exn + rgw_spec"
  rgwspec_validate :: "rgw_spec \<Rightarrow> py_exn + unit"
  placement_from_string :: "string \<Rightarrow> py_exn + placement_spec"
  realm_bootstrap :: "rgw_spec \<Rightarrow> bool \<Rightarrow> 'w \<Rightarrow> (py_exn + unit) \<times> 'w"
  zone_create :: "rgw_spec \<Rightarrow> bool \<Rightarrow> 'w \<Rightarrow> (py_exn + triple) \<times> 'w"
  realm_new_zone_creds ::
    "string option \<Rightarrow> string option \<Rightarrow> string option \<Rightarrow> 'w \<Rightarrow> (py_exn + triple) \<times> 'w"
  realm_rm_zone_creds :: "string option \<Rightarrow> 'w \<Rightarrow> (py_exn + triple) \<times> 'w"
  zone_modify ::
    "string \<Rightarrow> string \<Rightarrow> string \<Rightarrow> string list \<Rightarrow> string \<Rightarrow> 'w \<Rightarrow> (py_exn + triple) \<times> 'w"
  zonegroup_create ::
    "string option \<Rightarrow> string option \<Rightarrow> string option \<Rightarrow> bool \<Rightarrow> 'w \<Rightarrow> (py_exn + triple) \<times> 'w"
  realm_reconcile ::
    "string option \<Rightarrow> string option \<Rightarrow> string option \<Rightarrow> bool \<Rightarrow> 'w \<Rightarrow> (py_exn + triple) \<times> 'w"
  get_realms_info :: "'w \<Rightarrow> (py_exn + (string \<times> py_value) list list) \<times> 'w"

type_synonym 'w command = "'w \<Rightarrow> (py_exn + handle_command_result) \<times> 'w"

subsection \<open>OrchestratorAPI.status and the check_orchestrator decorator\<close>

record orch_status =
  available :: bool
  message :: string

text \<open>The classes named by \<^verbatim>\<open>except (RuntimeError, OrchestratorError, ImportError)\<close>.\<close>

fun status_catches :: "py_exn \<Rightarrow> bool" where
  "status_catches (RuntimeError s) = True"
| "status_catches (OrchestratorError s) = True"
| "status_catches (ImportError s) = True"
| "status_catches e = False"

definition status :: "'w rgw_env \<Rightarrow> 'w \<Rightarrow> py_exn + orch_status" where
  "status env w =
     (case orch_available env w of
        Inr (st, msg) \<Rightarrow> Inr \<lparr>available = st, message = msg\<rparr>
      | Inl e \<Rightarrow>
          if status_catches e
          then Inr \<lparr>available = False, message = ''Orchestrator is unavailable: '' @ exn_str e\<rparr>
          else Inl e)"

definition cephadm_err_msg :: string where
  "cephadm_err_msg =
     ''Cephadm is not available. Please enable cephadm by 'ceph mgr module enable cephadm'.''"

definition check_orchestrator :: "'w rgw_env \<Rightarrow> 'w command \<Rightarrow> 'w command" where
  "check_orchestrator env func w =
     (case status env w of
        Inl e \<Rightarrow> (Inl e, w)
      | Inr st \<Rightarrow>
          if available st then func w
          else (Inr (HandleCommandResult (- EINVAL) [] cephadm_err_msg), w))"

text \<open>
  The \<^verbatim>\<open>except RGWAMException as e: return (e.retcode, e.message, e.stderr)\<close> clause
  that closes every \<^verbatim>\<open>try\<close> of the module; any other exception leaves the handler.
\<close>

fun except_rgwam :: "(py_exn + handle_command_result) \<times> 'w \<Rightarrow> (py_exn + handle_command_result) \<times> 'w" where
  "except_rgwam (Inl (RGWAMException rc msg err), w) = (Inr (HandleCommandResult rc msg err), w)"
| "except_rgwam r = r"

subsection \<open>rgw admin\<close>

text \<open>\<^verbatim>\<open>RGWAMOrchMgr.tool_exec\<close>: the command line is the program followed by its arguments.\<close>

definition tool_exec :: "'w rgw_env \<Rightarrow> string \<Rightarrow> string list \<Rightarrow> 'w \<Rightarrow> (string list \<times> triple) \<times> 'w" where
  "tool_exec env prog args w =
     (let cmd = prog # args;
          (r, w') = mgr_tool_exec env cmd w
      in ((cmd, r), w'))"

definition cmd_rgw_admin :: "'w rgw_env \<Rightarrow> string list option \<Rightarrow> 'w command" where
  "cmd_rgw_admin env params w =
     (case tool_exec env ''radosgw-admin'' (case params of None \<Rightarrow> [] | Some ps \<Rightarrow> ps) w of
        ((cmd, (returncode, out, err)), w') \<Rightarrow> (Inr (HandleCommandResult returncode out err), w'))"

subsection \<open>Parsing specs from an input buffer\<close>

text \<open>
  \<^verbatim>\<open>_parse_rgw_specs\<close>: the documents that are not \<^verbatim>\<open>None\<close>, each turned into an
  \<^verbatim>\<open>RGWSpec\<close> and validated, in order; the first exception ends the loop.
\<close>

fun parse_specs_loop :: "'w rgw_env \<Rightarrow> py_value list \<Rightarrow> py_exn + rgw_spec list" where
  "parse_specs_loop env [] = Inr []"
| "parse_specs_loop env (spec # specs) =
     (case rgwspec_from_json env spec of
        Inl e \<Rightarrow> Inl e
      | Inr rgw_spec \<Rightarrow>
          (case rgwspec_validate env rgw_spec of
             Inl e \<Rightarrow> Inl e
           | Inr u \<Rightarrow>
               (case parse_specs_loop env specs of
                  Inl e \<Rightarrow> Inl e
                | Inr rgw_specs \<Rightarrow> Inr (rgw_spec # rgw_specs))))"

definition parse_rgw_specs :: "'w rgw_env \<Rightarrow> string \<Rightarrow> py_exn + rgw_spec list" where
  "parse_rgw_specs env inbuf =
     (case yaml_safe_load_all env inbuf of
        Inl e \<Rightarrow> Inl e
      | Inr yaml_objs \<Rightarrow> parse_specs_loop env (filter (\<lambda>obj. obj \<noteq> PNone) yaml_objs))"

subsection \<open>rgw realm bootstrap\<close>

text \<open>The \<^verbatim>\<open>for spec in rgw_specs\<close> loop: the value of each call is discarded.\<close>

fun bootstrap_loop :: "'w rgw_env \<Rightarrow> bool \<Rightarrow> rgw_spec list \<Rightarrow> 'w \<Rightarrow> (py_exn + unit) \<times> 'w" where
  "bootstrap_loop env start_radosgw [] w = (Inr (), w)"
| "bootstrap_loop env start_radosgw (spec # rgw_specs) w =
     (case realm_bootstrap env spec start_radosgw w of
        (Inl e, w') \<Rightarrow> (Inl e, w')
      | (Inr u, w') \<Rightarrow> bootstrap_loop env start_radosgw rgw_specs w')"

definition invalid_arguments :: handle_command_result where
  "invalid_arguments =
     HandleCommandResult (- EINVAL) [] ''Invalid arguments: -h or --help for usage''"

definition realms_created :: handle_command_result where
  "realms_created =
     HandleCommandResult 0
       ''Realm(s) created correctly. Please, use 'ceph rgw realm tokens' to get the token.'' []"

text \<open>\<^verbatim>\<open>PlacementSpec.from_string(placement) if placement else None\<close>.\<close>

definition placement_arg :: "'w rgw_env \<Rightarrow> string option \<Rightarrow> py_exn + placement_spec option" where
  "placement_arg env placement =
     (case placement of
        None \<Rightarrow> Inr None
      | Some p \<Rightarrow>
          if p = [] then Inr None
          else (case placement_from_string env p of Inl e \<Rightarrow> Inl e | Inr ps \<Rightarrow> Inr (Some ps)))"

definition realm_bootstrap_body ::
  "'w rgw_env \<Rightarrow> string option \<Rightarrow> string option \<Rightarrow> string option \<Rightarrow> int option \<Rightarrow>
   string option \<Rightarrow> bool \<Rightarrow> string option \<Rightarrow> 'w command" where
  "realm_bootstrap_body env realm_name zonegroup_name zone_name port placement start_radosgw inbuf w =
     except_rgwam
       (case (if truthy_str inbuf
              then (case parse_rgw_specs env (case inbuf of Some b \<Rightarrow> b | None \<Rightarrow> []) of
                      Inl e \<Rightarrow> Inl e
                    | Inr rgw_specs \<Rightarrow> Inr (Some rgw_specs))
              else if truthy_str realm_name \<and> truthy_str zonegroup_name \<and> truthy_str zone_name
              then (case placement_arg env placement of
                      Inl e \<Rightarrow> Inl e
                    | Inr placement_spec \<Rightarrow>
                        Inr (Some [\<lparr>rgw_realm = realm_name,
                                    rgw_zonegroup = zonegroup_name,
                                    rgw_zone = zone_name,
                                    rgw_realm_token = None,
                                    rgw_frontend_port = port,
                                    rgw_placement = placement_spec\<rparr>]))
              else Inr None) of
          Inl e \<Rightarrow> (Inl e, w)
        | Inr None \<Rightarrow> (Inr invalid_arguments, w)
        | Inr (Some rgw_specs) \<Rightarrow>
            (case bootstrap_loop env start_radosgw rgw_specs w of
               (Inl e, w') \<Rightarrow> (Inl e, w')
             | (Inr u, w') \<Rightarrow> (Inr realms_created, w')))"

definition cmd_rgw_realm_bootstrap ::
  "'w rgw_env \<Rightarrow> string option \<Rightarrow> string option \<Rightarrow> string option \<Rightarrow> int option \<Rightarrow>
   string option \<Rightarrow> bool \<Rightarrow> string option \<Rightarrow> 'w command" where
  "cmd_rgw_realm_bootstrap env realm_name zonegroup_name zone_name port placement start_radosgw inbuf =
     check_orchestrator env
       (realm_bootstrap_body env realm_name zonegroup_name zone_name port placement start_radosgw inbuf)"

subsection \<open>rgw zone create\<close>

text \<open>
  The loop of \<^verbatim>\<open>_cmd_rgw_zone_create\<close>. Its three local variables \<^verbatim>\<open>retval, out, err\<close>
  are bound by the first iteration only: \<open>None\<close> is the state in which they are
  still unbound. A non-zero \<^verbatim>\<open>retval\<close> leaves the loop (\<^verbatim>\<open>break\<close>).
\<close>

fun zone_create_loop ::
  "'w rgw_env \<Rightarrow> bool \<Rightarrow> rgw_spec list \<Rightarrow> triple option \<Rightarrow> 'w \<Rightarrow> (py_exn + triple option) \<times> 'w" where
  "zone_create_loop env start_radosgw [] locals w = (Inr locals, w)"
| "zone_create_loop env start_radosgw (rgw_spec # rgw_specs) locals w =
     (case zone_create env rgw_spec start_radosgw w of
        (Inl e, w') \<Rightarrow> (Inl e, w')
      | (Inr (retval, out, err), w') \<Rightarrow>
          if retval \<noteq> 0 then (Inr (Some (retval, out, err)), w')
          else zone_create_loop env start_radosgw rgw_specs (Some (retval, out, err)) w')"

text \<open>
  The final \<^verbatim>\<open>return HandleCommandResult(retval=retval, stdout=out, stderr=err)\<close> stands
  after the \<^verbatim>\<open>try\<close> statement: reading \<^verbatim>\<open>retval\<close> while it is unbound raises
  \<^verbatim>\<open>UnboundLocalError\<close>, which no clause of the handler catches.
\<close>

definition zone_create_body ::
  "'w rgw_env \<Rightarrow> string option \<Rightarrow> string option \<Rightarrow> int option \<Rightarrow> string option \<Rightarrow> bool \<Rightarrow>
   string option \<Rightarrow> 'w command" where
  "zone_create_body env zone_name realm_token port placement start_radosgw inbuf w =
     (case (if truthy_str inbuf
            then (case parse_rgw_specs env (case inbuf of Some b \<Rightarrow> b | None \<Rightarrow> []) of
                    Inl e \<Rightarrow> Inl e
                  | Inr rgw_specs \<Rightarrow> Inr (Some rgw_specs))
            else if truthy_str zone_name \<and> truthy_str realm_token
            then (case placement_arg env placement of
                    Inl e \<Rightarrow> Inl e
                  | Inr placement_spec \<Rightarrow>
                      Inr (Some [\<lparr>rgw_realm = None,
                                  rgw_zonegroup = None,
                                  rgw_zone = zone_name,
                                  rgw_realm_token = realm_token,
                                  rgw_frontend_port = port,
                                  rgw_placement = placement_spec\<rparr>]))
            else Inr None) of
        Inl e \<Rightarrow> except_rgwam (Inl e, w)
      | Inr None \<Rightarrow> (Inr invalid_arguments, w)
      | Inr (Some rgw_specs) \<Rightarrow>
          (case zone_create_loop env start_radosgw rgw_specs None w of
             (Inl e, w') \<Rightarrow> except_rgwam (Inl e, w')
           | (Inr None, w') \<Rightarrow> (Inl (UnboundLocalError ''retval''), w')
           | (Inr (Some (retval, out, err)), w') \<Rightarrow> (Inr (HandleCommandResult retval out err), w')))"

definition cmd_rgw_zone_create ::
  "'w rgw_env \<Rightarrow> string option \<Rightarrow> string option \<Rightarrow> int option \<Rightarrow> string option \<Rightarrow> bool \<Rightarrow>
   string option \<Rightarrow> 'w command" where
  "cmd_rgw_zone_create env zone_name realm_token port placement start_radosgw inbuf =
     check_orchestrator env
       (zone_create_body env zone_name realm_token port placement start_radosgw inbuf)"

subsection \<open>The handlers that wrap one operation\<close>

text \<open>
  \<^verbatim>\<open>retval, out, err = RGWAM(self.env).op(...)\<close> inside \<^verbatim>\<open>try\<close>, then
  \<^verbatim>\<open>return HandleCommandResult(retval=retval, stdout=out, stderr=err)\<close>.
\<close>

definition pass_through :: "(py_exn + triple) \<times> 'w \<Rightarrow> (py_exn + handle_command_result) \<times> 'w" where
  "pass_through r =
     (case r of
        (Inl e, w') \<Rightarrow> except_rgwam (Inl e, w')
      | (Inr (retval, out, err), w') \<Rightarrow> (Inr (HandleCommandResult retval out err), w'))"

definition cmd_rgw_realm_new_zone_creds ::
  "'w rgw_env \<Rightarrow> string option \<Rightarrow> string option \<Rightarrow> string option \<Rightarrow> 'w command" where
  "cmd_rgw_realm_new_zone_creds env realm_name endpoints sys_uid w =
     pass_through (realm_new_zone_creds env realm_name endpoints sys_uid w)"

definition cmd_rgw_realm_rm_zone_creds :: "'w rgw_env \<Rightarrow> string option \<Rightarrow> 'w command" where
  "cmd_rgw_realm_rm_zone_creds env realm_token w =
     pass_through (realm_rm_zone_creds env realm_token w)"

definition cmd_rgw_zonegroup_create ::
  "'w rgw_env \<Rightarrow> string option \<Rightarrow> string option \<Rightarrow> string option \<Rightarrow> bool \<Rightarrow> 'w command" where
  "cmd_rgw_zonegroup_create env realm_token zonegroup_name endpoints zonegroup_is_master w =
     pass_through (zonegroup_create env realm_token zonegroup_name endpoints zonegroup_is_master w)"

definition cmd_rgw_realm_reconcile ::
  "'w rgw_env \<Rightarrow> string option \<Rightarrow> string option \<Rightarrow> string option \<Rightarrow> bool \<Rightarrow> 'w command" where
  "cmd_rgw_realm_reconcile env realm_name zonegroup_name zone_name update w =
     pass_through (realm_reconcile env realm_name zonegroup_name zone_name update w)"

text \<open>
  \<^verbatim>\<open>update_zone_info\<close> keeps the \<^verbatim>\<open>retval\<close> of \<^verbatim>\<open>zone_modify\<close> and replaces its output
  by a fixed message: \<^verbatim>\<open>return (retval, 'Zone updated successfully', '')\<close>.
\<close>

definition update_zone_info ::
  "'w rgw_env \<Rightarrow> string \<Rightarrow> string \<Rightarrow> string \<Rightarrow> string \<Rightarrow> string list \<Rightarrow> 'w command" where
  "update_zone_info env realm_name zonegroup_name zone_name realm_token endpoints w =
     (case zone_modify env realm_name zonegroup_name zone_name endpoints realm_token w of
        (Inl e, w') \<Rightarrow> except_rgwam (Inl e, w')
      | (Inr (retval, out, err), w') \<Rightarrow>
          (Inr (HandleCommandResult retval ''Zone updated successfully'' []), w'))"

section \<open>Realm tokens\<close>

subsection \<open>json.dumps\<close>

text \<open>
  \<^verbatim>\<open>json.dumps\<close> with its default arguments: the separators are \<^verbatim>\<open>", "\<close> and \<^verbatim>\<open>": "\<close>, and
  \<^verbatim>\<open>ensure_ascii\<close> writes every character outside the printable ASCII range, the
  double quote and the backslash as an escape, \<^verbatim>\<open>\uXXXX\<close> in lower-case hexadecimal
  where JSON has no short form.
\<close>

definition digit_char :: "nat \<Rightarrow> char" where
  "digit_char n = char_of (48 + n)"

fun decimal :: "nat \<Rightarrow> string" where
  "decimal n = (if n < 10 then [digit_char n] else decimal (n div 10) @ [digit_char (n mod 10)])"

declare decimal.simps [simp del]

definition int_repr :: "int \<Rightarrow> string" where
  "int_repr i = (if i < 0 then CHR ''-'' # decimal (nat (- i)) else decimal (nat i))"

definition hex_digit :: "nat \<Rightarrow> char" where
  "hex_digit n = (if n < 10 then char_of (48 + n) else char_of (87 + n))"

definition json_escape_char :: "char \<Rightarrow> string" where
  "json_escape_char c =
     (if c = CHR 0x22 then [CHR 0x5C, CHR 0x22]
      else if c = CHR 0x5C then [CHR 0x5C, CHR 0x5C]
      else if c = CHR 0x08 then [CHR 0x5C, CHR ''b'']
      else if c = CHR 0x0C then [CHR 0x5C, CHR ''f'']
      else if c = CHR 0x0A then [CHR 0x5C, CHR ''n'']
      else if c = CHR 0x0D then [CHR 0x5C, CHR ''r'']
      else if c = CHR 0x09 then [CHR 0x5C, CHR ''t'']
      else if (of_char c :: nat) < 32 \<or> 126 < (of_char c :: nat)
      then [CHR 0x5C, CHR ''u'', CHR ''0'', CHR ''0'',
            hex_digit (of_char c div 16), hex_digit (of_char c mod 16)]
      else [c])"

definition json_string :: "string \<Rightarrow> string" where
  "json_string s = CHR 0x22 # concat (map json_escape_char s) @ [CHR 0x22]"

text \<open>\<^verbatim>\<open>sep.join(parts)\<close>.\<close>

fun join_with :: "string \<Rightarrow> string list \<Rightarrow> string" where
  "join_with sep [] = []"
| "join_with sep [x] = x"
| "join_with sep (x # y # ys) = x @ sep @ join_with sep (y # ys)"

fun json_dumps :: "py_value \<Rightarrow> string" where
  "json_dumps PNone = ''null''"
| "json_dumps (PBool b) = (if b then ''true'' else ''false'')"
| "json_dumps (PInt i) = int_repr i"
| "json_dumps (PStr s) = json_string s"
| "json_dumps (PList xs) = ''['' @ join_with '', '' (map json_dumps xs) @ '']''"
| "json_dumps (PDict kvs) =
     ''{'' @ join_with '', '' (map (\<lambda>(k, v). json_string k @ '': '' @ json_dumps v) kvs) @ ''}''"

subsection \<open>str.encode('utf-8') and base64.b64encode\<close>

text \<open>
  A byte is a \<open>char\<close>. A code point below 128 is one byte, a code point from 128 to
  255 the two bytes \<^verbatim>\<open>110000xx 10xxxxxx\<close>.
\<close>

definition utf8_encode_char :: "char \<Rightarrow> string" where
  "utf8_encode_char c =
     (if (of_char c :: nat) < 128 then [c]
      else [char_of (192 + of_char c div 64 :: nat), char_of (128 + of_char c mod 64 :: nat)])"

definition utf8_encode :: "string \<Rightarrow> string" where
  "utf8_encode s = concat (map utf8_encode_char s)"

text \<open>
  The standard base64 alphabet with \<^verbatim>\<open>=\<close> padding (RFC 4648, section 4): three bytes
  are four characters of six bits each; a last group of one or two bytes is padded
  with zero bits and closed by \<^verbatim>\<open>==\<close> or \<^verbatim>\<open>=\<close>.
\<close>

definition b64_alphabet :: string where
  "b64_alphabet = ''ABCDEFGHIJKLMNOPQRSTUVWXYZabcdefghijklmnopqrstuvwxyz0123456789+/''"

text \<open>
  The character of a six-bit value, by character code: \<^verbatim>\<open>A\<close> is 65, \<^verbatim>\<open>a\<close> is 97 and
  \<^verbatim>\<open>0\<close> is 48. Lemma \<open>b64_char_alphabet\<close> below checks it against the alphabet.
\<close>

definition b64_char :: "nat \<Rightarrow> char" where
  "b64_char i =
     (if i < 26 then char_of (65 + i)
      else if i < 52 then char_of (71 + i)
      else if i < 62 then char_of (i - 4)
      else if i = 62 then CHR ''+''
      else CHR ''/'')"

fun b64encode :: "string \<Rightarrow> string" where
  "b64encode [] = []"
| "b64encode [a] =
     (let x = of_char a :: nat
      in [b64_char (x div 4), b64_char (x mod 4 * 16), CHR ''='', CHR ''=''])"
| "b64encode [a, b] =
     (let x = of_char a :: nat; y = of_char b :: nat
      in [b64_char (x div 4), b64_char (x mod 4 * 16 + y div 16), b64_char (y mod 16 * 4),
          CHR ''=''])"
| "b64encode (a # b # c # rest) =
     (let x = of_char a :: nat; y = of_char b :: nat; z = of_char c :: nat
      in b64_char (x div 4) # b64_char (x mod 4 * 16 + y div 16) #
         b64_char (y mod 16 * 4 + z div 64) # b64_char (z mod 64) # b64encode rest)"

subsection \<open>RealmToken and its encoding\<close>

text \<open>
  Modelled from the spec: the class \<^verbatim>\<open>RealmToken\<close> (ceph.rgw.types) is not in module.py.
  The spec gives it the six fields \<^verbatim>\<open>realm_name, realm_id, is_primary, endpoint,
  access_key, secret\<close>; the constructor call of \<^verbatim>\<open>list_realm_tokens\<close> passes them as
  keyword arguments. The fields hold Python values, as the constructor is given them.
\<close>

record realm_token =
  rt_realm_name :: py_value
  rt_realm_id :: py_value
  rt_is_primary :: py_value
  rt_endpoint :: py_value
  rt_access_key :: py_value
  rt_secret :: py_value

text \<open>
  Modelled from the spec: \<^verbatim>\<open>RealmToken.to_json\<close> is not in module.py. The spec calls it
  a structured-data serialization of exactly the six fields, in any order: here the
  JSON object of the six fields, in the order of the key list of \<^verbatim>\<open>list_realm_tokens\<close>.
\<close>

definition token_fields :: "realm_token \<Rightarrow> (string \<times> py_value) list" where
  "token_fields t =
     [(''realm_name'', rt_realm_name t),
      (''realm_id'', rt_realm_id t),
      (''is_primary'', rt_is_primary t),
      (''endpoint'', rt_endpoint t),
      (''access_key'', rt_access_key t),
      (''secret'', rt_secret t)]"

definition to_json :: "realm_token \<Rightarrow> string" where
  "to_json t = json_dumps (PDict (token_fields t))"

text \<open>
  Lines 207 and 208 of module.py:
  \<^verbatim>\<open>base64.b64encode(realm_token.to_json().encode('utf-8')).decode('utf-8')\<close>. The result
  of \<^verbatim>\<open>b64encode\<close> is ASCII, on which \<^verbatim>\<open>.decode('utf-8')\<close> changes nothing.
\<close>

definition encode_token :: "realm_token \<Rightarrow> string" where
  "encode_token realm_token =
     (let realm_token_b = utf8_encode (to_json realm_token);
          realm_token_s = b64encode realm_token_b
      in realm_token_s)"

subsection \<open>rgw realm tokens\<close>

text \<open>\<^verbatim>\<open>d[k]\<close> on a dictionary: \<^verbatim>\<open>KeyError\<close> when the key is missing.\<close>

definition dict_get :: "(string \<times> py_value) list \<Rightarrow> string \<Rightarrow> py_exn + py_value" where
  "dict_get d k = (case map_of d k of None \<Rightarrow> Inl (KeyError k) | Some v \<Rightarrow> Inr v)"

definition bind_result :: "py_exn + 'a \<Rightarrow> ('a \<Rightarrow> py_exn + 'b) \<Rightarrow> py_exn + 'b" where
  "bind_result r f = (case r of Inl e \<Rightarrow> Inl e | Inr x \<Rightarrow> f x)"

text \<open>\<^verbatim>\<open>RealmToken(**{k: realm_info[k] for k in keys})\<close>.\<close>

definition realm_token_of :: "(string \<times> py_value) list \<Rightarrow> py_exn + realm_token" where
  "realm_token_of realm_info =
     bind_result (dict_get realm_info ''realm_name'') (\<lambda>v1.
     bind_result (dict_get realm_info ''realm_id'') (\<lambda>v2.
     bind_result (dict_get realm_info ''is_primary'') (\<lambda>v3.
     bind_result (dict_get realm_info ''endpoint'') (\<lambda>v4.
     bind_result (dict_get realm_info ''access_key'') (\<lambda>v5.
     bind_result (dict_get realm_info ''secret'') (\<lambda>v6.
       Inr \<lparr>rt_realm_name = v1, rt_realm_id = v2, rt_is_primary = v3,
            rt_endpoint = v4, rt_access_key = v5, rt_secret = v6\<rparr>))))))"

definition realm_entry :: "(string \<times> py_value) list \<Rightarrow> string \<Rightarrow> py_exn + py_value" where
  "realm_entry realm_info token =
     bind_result (dict_get realm_info ''realm_name'') (\<lambda>name.
       Inr (PDict [(''realm'', name), (''token'', PStr token)]))"

text \<open>
  One iteration of the loop of \<^verbatim>\<open>list_realm_tokens\<close>: the dictionary it appends.
  \<^verbatim>\<open>a and b\<close> reads \<^verbatim>\<open>b\<close> only when \<^verbatim>\<open>a\<close> is truthy.
\<close>

definition realm_token_entry :: "(string \<times> py_value) list \<Rightarrow> py_exn + py_value" where
  "realm_token_entry realm_info =
     bind_result (dict_get realm_info ''master_zone_id'') (\<lambda>master_zone_id.
       if \<not> truthy master_zone_id
       then realm_entry realm_info ''realm has no master zone''
       else
         bind_result (dict_get realm_info ''endpoint'') (\<lambda>endpoint.
           if \<not> truthy endpoint
           then realm_entry realm_info ''master zone has no endpoint''
           else
             bind_result (dict_get realm_info ''access_key'') (\<lambda>access_key.
             bind_result (if truthy access_key then dict_get realm_info ''secret''
                          else Inr access_key) (\<lambda>both.
               if \<not> truthy both
               then realm_entry realm_info ''master zone has no access/secret keys''
               else
                 bind_result (realm_token_of realm_info) (\<lambda>realm_token.
                   realm_entry realm_info (encode_token realm_token))))))"

fun realm_tokens_loop :: "(string \<times> py_value) list list \<Rightarrow> py_exn + py_value list" where
  "realm_tokens_loop [] = Inr []"
| "realm_tokens_loop (realm_info # rest) =
     (case realm_token_entry realm_info of
        Inl e \<Rightarrow> Inl e
      | Inr entry \<Rightarrow>
          (case realm_tokens_loop rest of
             Inl e \<Rightarrow> Inl e
           | Inr realms_info \<Rightarrow> Inr (entry # realms_info)))"

definition list_realm_tokens :: "'w rgw_env \<Rightarrow> 'w command" where
  "list_realm_tokens env w =
     (case get_realms_info env w of
        (Inl e, w') \<Rightarrow> (Inl e, w')
      | (Inr infos, w') \<Rightarrow>
          (case realm_tokens_loop infos of
             Inl e \<Rightarrow> (Inl e, w')
           | Inr realms_info \<Rightarrow>
               (Inr (HandleCommandResult 0 (json_dumps (PList realms_info)) []), w')))"

subsection \<open>The summary of one realm, as the spec words it\<close>

text \<open>
  The spec of \<^verbatim>\<open>list_realm_summaries\<close>: every realm is returned; a realm with no master
  zone, then one whose master zone has no endpoint, then one without access or secret
  key carries the marker of the missing piece; only a realm that has all of them
  carries an encoded token. \<open>realm_summary\<close> is that description as a function of one
  realm's dictionary, defined when the dictionary has the seven keys that
  \<^verbatim>\<open>list_realm_tokens\<close> reads. It is compared with the loop of the handler in the
  theorem for C5.
\<close>

definition realm_summary :: "(string \<times> py_value) list \<Rightarrow> py_value option" where
  "realm_summary realm_info =
     (case (map_of realm_info ''realm_name'', map_of realm_info ''realm_id'',
            map_of realm_info ''is_primary'', map_of realm_info ''master_zone_id'',
            map_of realm_info ''endpoint'', map_of realm_info ''access_key'',
            map_of realm_info ''secret'') of
        (Some name, Some rid, Some prim, Some mz, Some ep, Some ak, Some sk) \<Rightarrow>
          Some (PDict [(''realm'', name),
                       (''token'', PStr (
                          if \<not> truthy mz then ''realm has no master zone''
                          else if \<not> truthy ep then ''master zone has no endpoint''
                          else if \<not> (truthy ak \<and> truthy sk)
                          then ''master zone has no access/secret keys''
                          else encode_token \<lparr>rt_realm_name = name, rt_realm_id = rid,
                                 rt_is_primary = prim, rt_endpoint = ep,
                                 rt_access_key = ak, rt_secret = sk\<rparr>))])
      | _ \<Rightarrow> None)"

subsection \<open>Decoding a token\<close>

text \<open>
  Modelled from the spec: module.py only encodes tokens; the decoder
  (\<^verbatim>\<open>RealmToken.from_base64_str\<close> in ceph.rgw.types) is not in it. The spec's
  \<^verbatim>\<open>decode(string) -> RealmToken\<close> fails with \<^verbatim>\<open>TokenDecodeError\<close> if the envelope is not
  validly wrapped, if the inner structure is not valid structured data, or if any of
  the six required fields is absent or of the wrong type; no additional field is
  permitted. The definitions of this subsection follow those words, stage by stage:
  the base64 envelope, the UTF-8 text, the JSON value, the six fields.
\<close>

datatype token_error = TokenDecodeError

text \<open>
  Modelled from the spec: the envelope is validly wrapped when it is canonical base64
  (RFC 4648): groups of four characters of the alphabet, the last group padded with
  \<^verbatim>\<open>=\<close>, the unused bits of a padded group zero.
\<close>

definition b64_index :: "char \<Rightarrow> nat option" where
  "b64_index c =
     (let n = of_char c :: nat in
      if 65 \<le> n \<and> n \<le> 90 then Some (n - 65)
      else if 97 \<le> n \<and> n \<le> 122 then Some (n - 71)
      else if 48 \<le> n \<and> n \<le> 57 then Some (n + 4)
      else if c = CHR ''+'' then Some 62
      else if c = CHR ''/'' then Some 63
      else None)"

fun b64decode :: "string \<Rightarrow> string option" where
  "b64decode [] = Some []"
| "b64decode (a # b # c # d # rest) =
     (if rest = [] \<and> d = CHR ''='' then
        (if c = CHR ''='' then
           (case (b64_index a, b64_index b) of
              (Some i, Some j) \<Rightarrow>
                if j mod 16 = 0 then Some [char_of (i * 4 + j div 16)] else None
            | _ \<Rightarrow> None)
         else
           (case (b64_index a, b64_index b, b64_index c) of
              (Some i, Some j, Some k) \<Rightarrow>
                if k mod 4 = 0
                then Some [char_of (i * 4 + j div 16), char_of (j mod 16 * 16 + k div 4)]
                else None
            | _ \<Rightarrow> None))
      else
        (case (b64_index a, b64_index b, b64_index c, b64_index d) of
           (Some i, Some j, Some k, Some l) \<Rightarrow>
             (case b64decode rest of
                None \<Rightarrow> None
              | Some bytes \<Rightarrow>
                  Some (char_of (i * 4 + j div 16) # char_of (j mod 16 * 16 + k div 4) #
                        char_of (k mod 4 * 64 + l) # bytes))
         | _ \<Rightarrow> None))"
| "b64decode s = None"

text \<open>
  Modelled from the spec: the bytes of the payload as text (\<^verbatim>\<open>bytes.decode('utf-8')\<close>).
  A string of the model holds code points below 256 only, so the two-byte sequences
  are those led by \<^verbatim>\<open>0xC2\<close> or \<^verbatim>\<open>0xC3\<close>; any other byte above 127 is refused.
\<close>

fun utf8_decode :: "string \<Rightarrow> string option" where
  "utf8_decode [] = Some []"
| "utf8_decode (b # bs) =
     (if (of_char b :: nat) < 128 then
        (case utf8_decode bs of None \<Rightarrow> None | Some s \<Rightarrow> Some (b # s))
      else
        (case bs of
           [] \<Rightarrow> None
         | b2 # bs' \<Rightarrow>
             if (b = CHR 0xC2 \<or> b = CHR 0xC3) \<and> 128 \<le> (of_char b2 :: nat) \<and> (of_char b2 :: nat) < 192
             then (case utf8_decode bs' of
                     None \<Rightarrow> None
                   | Some s \<Rightarrow> Some (char_of ((of_char b - 192) * 64 + (of_char b2 - 128) :: nat) # s))
             else None))"

text \<open>
  Modelled from the spec: valid structured data is a JSON text (\<^verbatim>\<open>json.loads\<close>). The
  lexer reads strings with their escapes (\<^verbatim>\<open>\uXXXX\<close> for code points below 256),
  integers, the three literals and the punctuation, and skips white space; a number
  with a fraction or an exponent has no value in \<open>py_value\<close> and is refused.
\<close>

datatype json_token =
    TLBrace | TRBrace | TLBracket | TRBracket | TColon | TComma
  | TStr string | TInt int | TTrue | TFalse | TNull

definition hex_value :: "char \<Rightarrow> nat option" where
  "hex_value c =
     (let n = of_char c :: nat in
      if 48 \<le> n \<and> n \<le> 57 then Some (n - 48)
      else if 97 \<le> n \<and> n \<le> 102 then Some (n - 87)
      else if 65 \<le> n \<and> n \<le> 70 then Some (n - 55)
      else None)"

definition unescape :: "char \<Rightarrow> char option" where
  "unescape e =
     (if e = CHR 0x22 then Some (CHR 0x22)
      else if e = CHR 0x5C then Some (CHR 0x5C)
      else if e = CHR ''/'' then Some (CHR ''/'')
      else if e = CHR ''b'' then Some (CHR 0x08)
      else if e = CHR ''f'' then Some (CHR 0x0C)
      else if e = CHR ''n'' then Some (CHR 0x0A)
      else if e = CHR ''r'' then Some (CHR 0x0D)
      else if e = CHR ''t'' then Some (CHR 0x09)
      else None)"

definition lex_escape :: "string \<Rightarrow> (char \<times> string) option" where
  "lex_escape cs =
     (case cs of
        [] \<Rightarrow> None
      | e # cs1 \<Rightarrow>
          if e = CHR ''u'' then
            (case cs1 of
               h1 # h2 # h3 # h4 # cs2 \<Rightarrow>
                 (case (hex_value h1, hex_value h2, hex_value h3, hex_value h4) of
                    (Some a, Some b, Some x, Some y) \<Rightarrow>
                      if a = 0 \<and> b = 0 then Some (char_of (x * 16 + y), cs2) else None
                  | _ \<Rightarrow> None)
             | _ \<Rightarrow> None)
          else
            (case unescape e of
               None \<Rightarrow> None
             | Some ch \<Rightarrow> Some (ch, cs1)))"

lemma lex_escape_shorter: "lex_escape cs = Some (ch, rest) \<Longrightarrow> length rest < length cs"
  by (auto simp: lex_escape_def split: list.splits if_splits option.splits)

function lex_string :: "string \<Rightarrow> (string \<times> string) option" where
  "lex_string [] = None"
| "lex_string (c # cs) =
     (if c = CHR 0x22 then Some ([], cs)
      else if c = CHR 0x5C then
        (case lex_escape cs of
           None \<Rightarrow> None
         | Some (ch, cs1) \<Rightarrow>
             (case lex_string cs1 of
                None \<Rightarrow> None
              | Some (s, rest) \<Rightarrow> Some (ch # s, rest)))
      else if (of_char c :: nat) < 32 then None
      else (case lex_string cs of
              None \<Rightarrow> None
            | Some (s, rest) \<Rightarrow> Some (c # s, rest)))"
  by pat_completeness auto
termination
  by (relation "measure length") (auto dest: lex_escape_shorter)

lemma lex_string_shorter: "lex_string cs = Some (s, rest) \<Longrightarrow> length rest < length cs"
proof (induction cs arbitrary: s rest rule: lex_string.induct)
  case 1
  then show ?case by simp
next
  case (2 c cs)
  show ?case
  proof (cases "c = CHR 0x22")
    case True
    with "2.prems" show ?thesis by simp
  next
    case q: False
    show ?thesis
    proof (cases "c = CHR 0x5C")
      case True
      with q "2.prems" obtain ch cs1 s1 where
        e: "lex_escape cs = Some (ch, cs1)" and l: "lex_string cs1 = Some (s1, rest)"
        by (auto split: option.splits)
      have "length rest < length cs1"
        using "2.IH"(1) [OF q True e refl l] .
      with lex_escape_shorter [OF e] show ?thesis by simp
    next
      case b: False
      with q "2.prems" obtain s1 where
        c: "\<not> (of_char c :: nat) < 32" and l: "lex_string cs = Some (s1, rest)"
        by (auto split: option.splits if_splits)
      have "length rest < length cs"
        using "2.IH"(2) [OF q b c l] .
      then show ?thesis by simp
    qed
  qed
qed

definition is_ws :: "char \<Rightarrow> bool" where
  "is_ws c = (c = CHR '' '' \<or> c = CHR 0x09 \<or> c = CHR 0x0A \<or> c = CHR 0x0D)"

definition is_digit :: "char \<Rightarrow> bool" where
  "is_digit c = (48 \<le> (of_char c :: nat) \<and> (of_char c :: nat) \<le> 57)"

definition digits_value :: "string \<Rightarrow> nat" where
  "digits_value ds = foldl (\<lambda>a d. 10 * a + (of_char d - 48)) 0 ds"

definition lex_number :: "bool \<Rightarrow> string \<Rightarrow> (json_token \<times> string) option" where
  "lex_number negative ds =
     (case takeWhile is_digit ds of
        [] \<Rightarrow> None
      | d # ds1 \<Rightarrow>
          if d = CHR ''0'' \<and> ds1 \<noteq> [] then None
          else Some (TInt (if negative then - int (digits_value (d # ds1))
                           else int (digits_value (d # ds1))),
                     dropWhile is_digit ds))"

lemma length_dropWhile_less_Suc: "length (dropWhile P xs) < Suc (length xs)"
  by (simp add: le_imp_less_Suc length_dropWhile_le)

function tokenize :: "string \<Rightarrow> json_token list option" where
  "tokenize [] = Some []"
| "tokenize (c # cs) =
     (if is_ws c then tokenize cs
      else if c = CHR ''{'' then map_option (Cons TLBrace) (tokenize cs)
      else if c = CHR ''}'' then map_option (Cons TRBrace) (tokenize cs)
      else if c = CHR ''['' then map_option (Cons TLBracket) (tokenize cs)
      else if c = CHR '']'' then map_option (Cons TRBracket) (tokenize cs)
      else if c = CHR '':'' then map_option (Cons TColon) (tokenize cs)
      else if c = CHR '','' then map_option (Cons TComma) (tokenize cs)
      else if c = CHR 0x22 then
        (case lex_string cs of
           None \<Rightarrow> None
         | Some (s, rest) \<Rightarrow> map_option (Cons (TStr s)) (tokenize rest))
      else if c = CHR ''t'' then
        (if take 3 cs = ''rue'' then map_option (Cons TTrue) (tokenize (drop 3 cs)) else None)
      else if c = CHR ''f'' then
        (if take 4 cs = ''alse'' then map_option (Cons TFalse) (tokenize (drop 4 cs)) else None)
      else if c = CHR ''n'' then
        (if take 3 cs = ''ull'' then map_option (Cons TNull) (tokenize (drop 3 cs)) else None)
      else if c = CHR ''-'' then
        (case lex_number True cs of
           None \<Rightarrow> None
         | Some (t, rest) \<Rightarrow> map_option (Cons t) (tokenize rest))
      else if is_digit c then
        (case lex_number False (c # cs) of
           None \<Rightarrow> None
         | Some (t, rest) \<Rightarrow> map_option (Cons t) (tokenize rest))
      else None)"
  by pat_completeness auto
termination
  by (relation "measure length")
     (auto simp: lex_number_def length_dropWhile_less_Suc dest: lex_string_shorter
        split: list.splits if_splits)

text \<open>
  A dictionary built from the members of a JSON object in order: a key met again
  keeps its place and takes the later value, as \<^verbatim>\<open>d[k] = v\<close> does.
\<close>

definition dict_of_pairs :: "(string \<times> py_value) list \<Rightarrow> (string \<times> py_value) list" where
  "dict_of_pairs kvs = foldl (\<lambda>d (k, v). AList.update k v d) [] kvs"

text \<open>
  The parser over tokens. The recursive calls on what an earlier call left over are
  guarded by a length test, which makes the recursion well-founded on the length of
  the input; a value always consumes at least one token, so the guard never fails
  where a call returned (lemma \<open>parse_consumes\<close> below).
\<close>

function parse_value :: "json_token list \<Rightarrow> (py_value \<times> json_token list) option"
  and parse_elements :: "json_token list \<Rightarrow> (py_value list \<times> json_token list) option"
  and parse_members :: "json_token list \<Rightarrow> ((string \<times> py_value) list \<times> json_token list) option"
where
  "parse_value [] = None"
| "parse_value (t # ts) =
     (case t of
        TStr s \<Rightarrow> Some (PStr s, ts)
      | TInt i \<Rightarrow> Some (PInt i, ts)
      | TTrue \<Rightarrow> Some (PBool True, ts)
      | TFalse \<Rightarrow> Some (PBool False, ts)
      | TNull \<Rightarrow> Some (PNone, ts)
      | TLBracket \<Rightarrow>
          (case ts of
             TRBracket # r \<Rightarrow> Some (PList [], r)
           | _ \<Rightarrow> (case parse_elements ts of
                     None \<Rightarrow> None
                   | Some (vs, r) \<Rightarrow> Some (PList vs, r)))
      | TLBrace \<Rightarrow>
          (case ts of
             TRBrace # r \<Rightarrow> Some (PDict [], r)
           | _ \<Rightarrow> (case parse_members ts of
                     None \<Rightarrow> None
                   | Some (kvs, r) \<Rightarrow> Some (PDict (dict_of_pairs kvs), r)))
      | _ \<Rightarrow> None)"
| "parse_elements ts =
     (case parse_value ts of
        None \<Rightarrow> None
      | Some (v, r) \<Rightarrow>
          (case r of
             TRBracket # r1 \<Rightarrow> Some ([v], r1)
           | TComma # r1 \<Rightarrow>
               if length r1 < length ts
               then (case parse_elements r1 of
                       None \<Rightarrow> None
                     | Some (vs, r2) \<Rightarrow> Some (v # vs, r2))
               else None
           | _ \<Rightarrow> None))"
| "parse_members ts =
     (case ts of
        TStr k # TColon # ts1 \<Rightarrow>
          (case parse_value ts1 of
             None \<Rightarrow> None
           | Some (v, r) \<Rightarrow>
               (case r of
                  TRBrace # r1 \<Rightarrow> Some ([(k, v)], r1)
                | TComma # r1 \<Rightarrow>
                    if length r1 < length ts
                    then (case parse_members r1 of
                            None \<Rightarrow> None
                          | Some (kvs, r2) \<Rightarrow> Some ((k, v) # kvs, r2))
                    else None
                | _ \<Rightarrow> None))
      | _ \<Rightarrow> None)"
  by pat_completeness auto
termination
  by (relation "measure (\<lambda>x. case x of
          Inl ts \<Rightarrow> 2 * length ts
        | Inr (Inl ts) \<Rightarrow> 2 * length ts + 1
        | Inr (Inr ts) \<Rightarrow> 2 * length ts + 1)") auto

text \<open>
  The equations of \<open>parse_elements\<close> and \<open>parse_members\<close> have a variable as their
  argument and would be unfolded without end; they are used where they are named.
\<close>

declare parse_elements.simps [simp del] parse_members.simps [simp del]

definition json_loads :: "string \<Rightarrow> py_value option" where
  "json_loads s =
     (case tokenize s of
        None \<Rightarrow> None
      | Some ts \<Rightarrow>
          (case parse_value ts of
             Some (v, []) \<Rightarrow> Some v
           | _ \<Rightarrow> None))"

text \<open>
  Modelled from the spec: the six required fields and their types
  (\<^verbatim>\<open>is_primary\<close> a boolean, the other five strings). A token is well-formed when its
  fields have these types. An object is a token when it has no key besides the six,
  has all six (\<open>realm_token_of\<close> is the constructor call with the dictionary as
  keyword arguments), and the token made of them is well-formed.
\<close>

definition token_keys :: "string list" where
  "token_keys = [''realm_name'', ''realm_id'', ''is_primary'', ''endpoint'', ''access_key'', ''secret'']"

fun is_str :: "py_value \<Rightarrow> bool" where
  "is_str (PStr s) = True"
| "is_str v = False"

fun is_bool :: "py_value \<Rightarrow> bool" where
  "is_bool (PBool b) = True"
| "is_bool v = False"

definition well_formed_token :: "realm_token \<Rightarrow> bool" where
  "well_formed_token t \<longleftrightarrow>
     is_str (rt_realm_name t) \<and> is_str (rt_realm_id t) \<and> is_bool (rt_is_primary t) \<and>
     is_str (rt_endpoint t) \<and> is_str (rt_access_key t) \<and> is_str (rt_secret t)"

definition token_of_object :: "py_value \<Rightarrow> realm_token option" where
  "token_of_object obj =
     (case obj of
        PDict kvs \<Rightarrow>
          if list_all (\<lambda>kv. fst kv \<in> set token_keys) kvs
          then (case realm_token_of kvs of
                  Inl e \<Rightarrow> None
                | Inr t \<Rightarrow> if well_formed_token t then Some t else None)
          else None
      | _ \<Rightarrow> None)"

definition decode_token :: "string \<Rightarrow> token_error + realm_token" where
  "decode_token s =
     (case b64decode s of
        None \<Rightarrow> Inl TokenDecodeError
      | Some bytes \<Rightarrow>
          (case utf8_decode bytes of
             None \<Rightarrow> Inl TokenDecodeError
           | Some payload \<Rightarrow>
               (case json_loads payload of
                  None \<Rightarrow> Inl TokenDecodeError
                | Some obj \<Rightarrow>
                    (case token_of_object obj of
                       None \<Rightarrow> Inl TokenDecodeError
                     | Some t \<Rightarrow> Inr t))))"

section \<open>An example environment\<close>

text \<open>
  A concrete environment on which the theorems below are instantiated. Its world is
  the list of the names the operations were called with, in call order, so the
  world a handler returns shows which operations it attempted. The orchestrator
  answer, the outcome of an operation (by the name it is called with), the
  documents of the input buffer and the realms reported are parameters.
\<close>

fun str_field :: "(string \<times> py_value) list \<Rightarrow> string \<Rightarrow> string option" where
  "str_field kvs k = (case map_of kvs k of Some (PStr s) \<Rightarrow> Some s | _ \<Rightarrow> None)"

definition example_from_json :: "py_value \<Rightarrow> py_exn + rgw_spec" where
  "example_from_json d =
     (case d of
        PDict kvs \<Rightarrow>
          Inr \<lparr>rgw_realm = str_field kvs ''rgw_realm'',
               rgw_zonegroup = str_field kvs ''rgw_zonegroup'',
               rgw_zone = str_field kvs ''rgw_zone'',
               rgw_realm_token = str_field kvs ''rgw_realm_token'',
               rgw_frontend_port = None,
               rgw_placement = None\<rparr>
      | _ \<Rightarrow> Inl (OtherError ''not a mapping''))"

definition example_env ::
  "(py_exn + bool \<times> string) \<Rightarrow> (string option \<Rightarrow> py_exn + triple) \<Rightarrow> py_value list \<Rightarrow>
   (string \<times> py_value) list list \<Rightarrow> string option list rgw_env" where
  "example_env avail outcome docs realms =
     \<lparr>orch_available = (\<lambda>w. avail),
      mgr_tool_exec = (\<lambda>cmd w. ((0, concat cmd, []), w @ [Some ''tool_exec''])),
      yaml_safe_load_all = (\<lambda>inbuf. Inr docs),
      rgwspec_from_json = example_from_json,
      rgwspec_validate = (\<lambda>s. if rgw_zone s = None then Inl (OtherError ''no zone'') else Inr ()),
      placement_from_string = (\<lambda>p. Inr \<lparr>hosts = [p], label = None, count = None\<rparr>),
      realm_bootstrap = (\<lambda>s start w. (map_sum id (\<lambda>t. ()) (outcome (rgw_zone s)), w @ [rgw_zone s])),
      zone_create = (\<lambda>s start w. (outcome (rgw_zone s), w @ [rgw_zone s])),
      realm_new_zone_creds = (\<lambda>realm_name endpoints sys_uid w. (outcome realm_name, w @ [realm_name])),
      realm_rm_zone_creds = (\<lambda>realm_token w. (outcome realm_token, w @ [realm_token])),
      zone_modify = (\<lambda>realm_name zonegroup_name zone_name endpoints realm_token w.
                       (outcome (Some zone_name), w @ [Some zone_name])),
      zonegroup_create = (\<lambda>realm_token zonegroup_name endpoints is_master w.
                            (outcome zonegroup_name, w @ [zonegroup_name])),
      realm_reconcile = (\<lambda>realm_name zonegroup_name zone_name update w.
                           (outcome zone_name, w @ [zone_name])),
      get_realms_info = (\<lambda>w. (Inr realms, w))\<rparr>"

definition ok_outcome :: "string option \<Rightarrow> py_exn + triple" where
  "ok_outcome z = Inr (0, ''done'', [])"

definition fails_with :: "string \<Rightarrow> py_exn + triple \<Rightarrow> string option \<Rightarrow> py_exn + triple" where
  "fails_with z r zone = (if zone = Some z then r else Inr (0, ''ok'', []))"

definition doc_zone :: "string \<Rightarrow> py_value" where
  "doc_zone z = PDict [(''rgw_zone'', PStr z)]"

definition spec_zone :: "string \<Rightarrow> rgw_spec" where
  "spec_zone z = \<lparr>rgw_realm = None, rgw_zonegroup = None, rgw_zone = Some z,
                  rgw_realm_token = None, rgw_frontend_port = None, rgw_placement = None\<rparr>"

definition three_docs :: "py_value list" where
  "three_docs = [doc_zone ''z1'', PNone, doc_zone ''z2'', doc_zone ''z3'']"

text \<open>
  The state of the locals \<^verbatim>\<open>retval, out, err\<close> of the zone create loop in which the loop
  has not met a non-zero \<^verbatim>\<open>retval\<close>: unbound, or bound by a call that returned 0.
\<close>

fun unbroken :: "triple option \<Rightarrow> bool" where
  "unbroken None = True"
| "unbroken (Some (retval, out, err)) = (retval = 0)"

text \<open>Realm dictionaries as \<^verbatim>\<open>get_realms_info\<close> reports them, and a token.\<close>

definition example_realm :: "string \<Rightarrow> py_value \<Rightarrow> py_value \<Rightarrow> py_value \<Rightarrow> py_value \<Rightarrow> (string \<times> py_value) list" where
  "example_realm name mz ep ak sk =
     [(''realm_name'', PStr name), (''realm_id'', PStr ''0a1b''), (''is_primary'', PBool True),
      (''master_zone_id'', mz), (''endpoint'', ep), (''access_key'', ak), (''secret'', sk)]"

definition four_realms :: "(string \<times> py_value) list list" where
  "four_realms =
     [example_realm ''r1'' PNone PNone PNone PNone,
      example_realm ''r2'' (PStr ''z-id'') (PStr []) (PStr ''AK'') (PStr ''SK''),
      example_realm ''r3'' (PStr ''z-id'') (PStr ''http://h:80'') (PStr ''AK'') PNone,
      example_realm ''r4'' (PStr ''z-id'') (PStr ''http://h:80'') (PStr ''AK'') (PStr ''SK'')]"

definition example_token :: realm_token where
  "example_token =
     \<lparr>rt_realm_name = PStr ''r4'', rt_realm_id = PStr ''0a1b'', rt_is_primary = PBool True,
      rt_endpoint = PStr ''http://h:80'', rt_access_key = PStr ''AK'', rt_secret = PStr ''SK''\<rparr>"

section \<open>Properties of the command handlers\<close>

subsection \<open>Auxiliary facts\<close>

lemma gate_closed:
  "status env w = Inr st \<Longrightarrow> \<not> available st \<Longrightarrow>
   check_orchestrator env func w = (Inr (HandleCommandResult (- EINVAL) [] cephadm_err_msg), w)"
  by (simp add: check_orchestrator_def)

lemma gate_open:
  "status env w = Inr st \<Longrightarrow> available st \<Longrightarrow> check_orchestrator env func w = func w"
  by (simp add: check_orchestrator_def)

lemma status_example_env:
  "status (example_env (Inr (a, m)) outcome docs realms) w = Inr \<lparr>available = a, message = m\<rparr>"
  by (simp add: status_def example_env_def)

lemma example_from_json_doc_zone: "example_from_json (doc_zone z) = Inr (spec_zone z)"
  by (simp add: example_from_json_def doc_zone_def spec_zone_def)

lemma parse_three_docs:
  "parse_rgw_specs (example_env (Inr (True, [])) outcome three_docs []) ''buffer''
     = Inr ([spec_zone ''z1''] @ spec_zone ''z2'' # [spec_zone ''z3''])"
  by (simp add: parse_rgw_specs_def example_env_def three_docs_def example_from_json_doc_zone)
     (simp add: doc_zone_def spec_zone_def)

lemma parse_specs_loop_iff:
  "parse_specs_loop env ds = Inr specs \<longleftrightarrow>
   list_all2 (\<lambda>d s. rgwspec_from_json env d = Inr s \<and> rgwspec_validate env s = Inr ()) ds specs"
proof (induction ds arbitrary: specs)
  case Nil
  show ?case by auto
next
  case (Cons d ds)
  show ?case
    by (cases specs) (auto simp: Cons.IH [symmetric] split: sum.splits)
qed

lemma bootstrap_loop_append:
  "bootstrap_loop env start xs w = (Inr (), w1) \<Longrightarrow>
   bootstrap_loop env start (xs @ zs) w = bootstrap_loop env start zs w1"
  by (induction xs arbitrary: w) (auto split: prod.splits sum.splits)

lemma zone_create_loop_append:
  "zone_create_loop env start xs l0 w = (Inr l, w1) \<Longrightarrow> unbroken l \<Longrightarrow>
   zone_create_loop env start (xs @ zs) l0 w = zone_create_loop env start zs l w1"
  by (induction xs arbitrary: l0 w) (auto split: prod.splits sum.splits if_splits)

subsection \<open>The availability gate\<close>

text \<open>
  C1. When the orchestrator status says unavailable, \<^verbatim>\<open>rgw realm bootstrap\<close> and
  \<^verbatim>\<open>rgw zone create\<close> return the failure \<^verbatim>\<open>(-EINVAL, '', 'Cephadm is not available ...')\<close>,
  whose return code is not zero, and the world is the one they were given: the
  wrapped handler is not entered, so no operation of the environment (and with it no
  admin-tool process) has run. This holds for every value of \<^verbatim>\<open>start_radosgw\<close>, the
  value \<^verbatim>\<open>True\<close> of the claim included.
\<close>

theorem availability_gate:
  assumes "status env w = Inr st" and "\<not> available st"
  shows "cmd_rgw_realm_bootstrap env realm_name zonegroup_name zone_name port pl start_radosgw inbuf w
           = (Inr (HandleCommandResult (- EINVAL) [] cephadm_err_msg), w)
       \<and> cmd_rgw_zone_create env zone_name realm_token port pl start_radosgw inbuf w
           = (Inr (HandleCommandResult (- EINVAL) [] cephadm_err_msg), w)
       \<and> - EINVAL \<noteq> 0"
  using assms by (simp add: cmd_rgw_realm_bootstrap_def cmd_rgw_zone_create_def gate_closed EINVAL_def)

theorem availability_gate_witness:
  "status (example_env (Inr (False, ''no backend'')) ok_outcome [] []) []
     = Inr \<lparr>available = False, message = ''no backend''\<rparr>
   \<and> cmd_rgw_realm_bootstrap (example_env (Inr (False, ''no backend'')) ok_outcome [] [])
       (Some ''r1'') (Some ''zg1'') (Some ''z1'') (Some 8080) None True None []
       = (Inr (HandleCommandResult (- 22) [] cephadm_err_msg), [])
   \<and> cmd_rgw_zone_create (example_env (Inr (False, ''no backend'')) ok_outcome [] [])
       (Some ''z1'') (Some ''token'') (Some 8080) None True None []
       = (Inr (HandleCommandResult (- 22) [] cephadm_err_msg), [])"
proof -
  have s: "status (example_env (Inr (False, ''no backend'')) ok_outcome [] []) []
            = Inr \<lparr>available = False, message = ''no backend''\<rparr>"
    by (simp add: status_def example_env_def)
  show ?thesis
    using s availability_gate [where realm_name = "Some ''r1''" and zonegroup_name = "Some ''zg1''"
        and zone_name = "Some ''z1''" and port = "Some 8080" and pl = None and start_radosgw = True
        and inbuf = None and realm_token = "Some ''token''", OF s]
    by (simp add: EINVAL_def)
qed

text \<open>
  C9. When \<^verbatim>\<open>available()\<close> raises a \<^verbatim>\<open>RuntimeError\<close>, an \<^verbatim>\<open>OrchestratorError\<close> or an
  \<^verbatim>\<open>ImportError\<close> with text \<open>s\<close>, \<^verbatim>\<open>status()\<close> does not raise: it returns the dictionary
  with \<^verbatim>\<open>available\<close> false and the message \<^verbatim>\<open>'Orchestrator is unavailable: '\<close> followed by
  \<open>s\<close>; the two gated commands then return the unavailability failure and leave the
  world as it was.
\<close>

theorem status_never_raises:
  assumes "orch_available env w = Inl e"
      and "e = RuntimeError s \<or> e = OrchestratorError s \<or> e = ImportError s"
  shows "status env w = Inr \<lparr>available = False, message = ''Orchestrator is unavailable: '' @ s\<rparr>
       \<and> cmd_rgw_realm_bootstrap env realm_name zonegroup_name zone_name port pl start_radosgw inbuf w
           = (Inr (HandleCommandResult (- EINVAL) [] cephadm_err_msg), w)
       \<and> cmd_rgw_zone_create env zone_name realm_token port pl start_radosgw inbuf w
           = (Inr (HandleCommandResult (- EINVAL) [] cephadm_err_msg), w)"
proof -
  have st: "status env w = Inr \<lparr>available = False, message = ''Orchestrator is unavailable: '' @ s\<rparr>"
    using assms by (auto simp: status_def)
  show ?thesis
    using st by (simp add: cmd_rgw_realm_bootstrap_def cmd_rgw_zone_create_def gate_closed)
qed

theorem status_never_raises_witness:
  "status (example_env (Inl (ImportError ''No module named cephadm'')) ok_outcome [] []) []
     = Inr \<lparr>available = False,
            message = ''Orchestrator is unavailable: No module named cephadm''\<rparr>
   \<and> cmd_rgw_realm_bootstrap (example_env (Inl (ImportError ''No module named cephadm'')) ok_outcome [] [])
       (Some ''r1'') (Some ''zg1'') (Some ''z1'') None None True None []
       = (Inr (HandleCommandResult (- 22) [] cephadm_err_msg), [])
   \<and> cmd_rgw_zone_create (example_env (Inl (ImportError ''No module named cephadm'')) ok_outcome [] [])
       (Some ''z1'') (Some ''token'') None None True None []
       = (Inr (HandleCommandResult (- 22) [] cephadm_err_msg), [])"
proof -
  have a: "orch_available (example_env (Inl (ImportError ''No module named cephadm'')) ok_outcome [] []) []
             = Inl (ImportError ''No module named cephadm'')"
    by (simp add: example_env_def)
  show ?thesis
    using status_never_raises [where realm_name = "Some ''r1''" and zonegroup_name = "Some ''zg1''"
        and zone_name = "Some ''z1''" and port = None and pl = None and start_radosgw = True
        and inbuf = None and realm_token = "Some ''token''"
        and s = "''No module named cephadm''", OF a]
    by (simp add: EINVAL_def)
qed

subsection \<open>Argument resolution\<close>

text \<open>
  C7. Without an input buffer, and unless \<^verbatim>\<open>realm_name\<close>, \<^verbatim>\<open>zonegroup_name\<close> and
  \<^verbatim>\<open>zone_name\<close> are all given (an empty string counts as not given), \<^verbatim>\<open>rgw realm
  bootstrap\<close> returns a failure with return code \<^verbatim>\<open>-EINVAL\<close> and the world unchanged:
  the bad-input failure \<^verbatim>\<open>'Invalid arguments: -h or --help for usage'\<close> when the
  orchestrator is available, the failure of the availability gate otherwise.
\<close>

theorem bootstrap_names_required_together:
  assumes "status env w = Inr st"
      and "\<not> truthy_str inbuf"
      and "\<not> (truthy_str realm_name \<and> truthy_str zonegroup_name \<and> truthy_str zone_name)"
  shows "cmd_rgw_realm_bootstrap env realm_name zonegroup_name zone_name port pl start_radosgw inbuf w
           = (Inr (if available st then invalid_arguments
                   else HandleCommandResult (- EINVAL) [] cephadm_err_msg), w)
       \<and> retval_of invalid_arguments = - EINVAL \<and> - EINVAL \<noteq> 0"
proof (cases "available st")
  case True
  have "realm_bootstrap_body env realm_name zonegroup_name zone_name port pl start_radosgw inbuf w
          = (Inr invalid_arguments, w)"
  proof -
    have na: "(truthy_str realm_name \<and> truthy_str zonegroup_name \<and> truthy_str zone_name) = False"
      using assms(3) by simp
    show ?thesis
      unfolding realm_bootstrap_body_def using assms(2) by (simp only: na if_False) simp
  qed
  with True assms(1) show ?thesis
    by (simp add: cmd_rgw_realm_bootstrap_def gate_open invalid_arguments_def EINVAL_def)
next
  case False
  with assms(1) show ?thesis
    by (simp add: cmd_rgw_realm_bootstrap_def gate_closed invalid_arguments_def EINVAL_def)
qed

theorem bootstrap_names_required_together_witness:
  "cmd_rgw_realm_bootstrap (example_env (Inr (True, [])) ok_outcome [] [])
       (Some ''r1'') None (Some ''z1'') (Some 8080) None True None []
     = (Inr (HandleCommandResult (- 22) [] ''Invalid arguments: -h or --help for usage''), [])"
proof -
  have s: "status (example_env (Inr (True, [])) ok_outcome [] []) []
            = Inr \<lparr>available = True, message = []\<rparr>"
    by (simp add: status_def example_env_def)
  show ?thesis
    using bootstrap_names_required_together [where realm_name = "Some ''r1''"
        and zonegroup_name = None and zone_name = "Some ''z1''" and port = "Some 8080"
        and pl = None and start_radosgw = True and inbuf = None, OF s]
    by (simp add: EINVAL_def invalid_arguments_def)
qed

text \<open>
  C6. \<^verbatim>\<open>_parse_rgw_specs\<close> returns the list \<open>specs\<close> exactly when \<open>specs\<close> matches, position
  by position, the documents of the buffer that are not \<^verbatim>\<open>None\<close>: each spec is what
  \<^verbatim>\<open>RGWSpec.from_json\<close> makes of its document, and it passed \<^verbatim>\<open>validate\<close>. The \<^verbatim>\<open>None\<close>
  documents leave no trace and the order of the others is kept. The function takes
  and returns no world: it calls the loader, \<^verbatim>\<open>from_json\<close> and \<^verbatim>\<open>validate\<close> only.
\<close>

theorem parse_rgw_specs_drops_null_keeps_order:
  assumes "yaml_safe_load_all env inbuf = Inr docs"
  shows "parse_rgw_specs env inbuf = Inr specs \<longleftrightarrow>
         list_all2 (\<lambda>d s. rgwspec_from_json env d = Inr s \<and> rgwspec_validate env s = Inr ())
           (filter (\<lambda>d. d \<noteq> PNone) docs) specs"
  using assms by (simp add: parse_rgw_specs_def parse_specs_loop_iff)

theorem parse_rgw_specs_drops_null_keeps_order_witness:
  "parse_rgw_specs (example_env (Inr (True, [])) ok_outcome
       [PNone, doc_zone ''z1'', PNone, PNone, doc_zone ''z2''] []) ''buffer''
     = Inr [spec_zone ''z1'', spec_zone ''z2'']"
proof -
  let ?env = "example_env (Inr (True, [])) ok_outcome
       [PNone, doc_zone ''z1'', PNone, PNone, doc_zone ''z2''] []"
  have y: "yaml_safe_load_all ?env ''buffer''
             = Inr [PNone, doc_zone ''z1'', PNone, PNone, doc_zone ''z2'']"
    by (simp add: example_env_def)
  have f: "rgwspec_from_json ?env = example_from_json"
    by (simp add: example_env_def)
  have v: "rgwspec_validate ?env (spec_zone z) = Inr ()" for z
    by (simp add: example_env_def spec_zone_def)
  show ?thesis
    using parse_rgw_specs_drops_null_keeps_order [OF y, of "[spec_zone ''z1'', spec_zone ''z2'']"]
    by (simp add: f v example_from_json_doc_zone) (simp add: doc_zone_def)
qed

subsection \<open>Batches\<close>

text \<open>
  C3. Let the input buffer resolve to the specs \<open>xs @ x # ys\<close>, let the loop over \<open>xs\<close>
  run through without a failure and reach the world \<open>w1\<close>, and let the operation
  fail on \<open>x\<close> there, leaving the world \<open>w2\<close>. Then the command returns the failure of
  \<open>x\<close> and the world \<open>w2\<close>, whatever \<open>ys\<close> is: no spec after \<open>x\<close> is attempted.
  A failure is any exception \<open>e\<close> the operation raises, an \<^verbatim>\<open>RGWAMException\<close> or another
  one (an orchestrator error re-raised by \<^verbatim>\<open>raise_if_exception\<close>, say); the result is
  what the \<^verbatim>\<open>except RGWAMException\<close> clause makes of it: the triple
  \<^verbatim>\<open>(e.retcode, e.message, e.stderr)\<close> for an \<^verbatim>\<open>RGWAMException\<close>, the exception itself,
  leaving the handler, for any other. For \<^verbatim>\<open>rgw zone create\<close> a returned triple with a
  non-zero return code is a failure too, and is the result. (The value an operation
  of \<^verbatim>\<open>rgw realm bootstrap\<close> returns is discarded by the handler.)
\<close>

theorem batch_fail_fast:
  assumes "status env w = Inr st" and "available st"
      and "b \<noteq> []" and "parse_rgw_specs env b = Inr (xs @ x # ys)"
  shows "(bootstrap_loop env start_radosgw xs w = (Inr (), w1) \<and>
          realm_bootstrap env x start_radosgw w1 = (Inl e, w2) \<longrightarrow>
          cmd_rgw_realm_bootstrap env realm_name zonegroup_name zone_name port pl start_radosgw (Some b) w
            = except_rgwam (Inl e, w2))
       \<and> (zone_create_loop env start_radosgw xs None w = (Inr l, w1) \<and> unbroken l \<and>
          zone_create env x start_radosgw w1 = (Inl e, w2) \<longrightarrow>
          cmd_rgw_zone_create env zone_name realm_token port pl start_radosgw (Some b) w
            = except_rgwam (Inl e, w2))
       \<and> (zone_create_loop env start_radosgw xs None w = (Inr l, w1) \<and> unbroken l \<and>
          zone_create env x start_radosgw w1 = (Inr (rc, msg, err), w2) \<and> rc \<noteq> 0 \<longrightarrow>
          cmd_rgw_zone_create env zone_name realm_token port pl start_radosgw (Some b) w
            = (Inr (HandleCommandResult rc msg err), w2))
       \<and> except_rgwam (Inl (RGWAMException rc msg err), w2)
            = (Inr (HandleCommandResult rc msg err), w2)
       \<and> ((\<forall>rc' msg' err'. e \<noteq> RGWAMException rc' msg' err') \<longrightarrow>
            except_rgwam (Inl e, w2) = (Inl e, w2))"
proof (intro conjI impI)
  assume a: "bootstrap_loop env start_radosgw xs w = (Inr (), w1) \<and>
          realm_bootstrap env x start_radosgw w1 = (Inl e, w2)"
  then have "bootstrap_loop env start_radosgw (xs @ x # ys) w = (Inl e, w2)"
    by (simp add: bootstrap_loop_append)
  then have "realm_bootstrap_body env realm_name zonegroup_name zone_name port pl start_radosgw (Some b) w
      = except_rgwam (Inl e, w2)"
    using assms(3,4) by (simp add: realm_bootstrap_body_def)
  then show "cmd_rgw_realm_bootstrap env realm_name zonegroup_name zone_name port pl start_radosgw (Some b) w
            = except_rgwam (Inl e, w2)"
    using assms(1,2) by (simp add: cmd_rgw_realm_bootstrap_def gate_open)
next
  assume a: "zone_create_loop env start_radosgw xs None w = (Inr l, w1) \<and> unbroken l \<and>
          zone_create env x start_radosgw w1 = (Inl e, w2)"
  then have "zone_create_loop env start_radosgw (xs @ x # ys) None w = (Inl e, w2)"
    by (simp add: zone_create_loop_append)
  then have "zone_create_body env zone_name realm_token port pl start_radosgw (Some b) w
      = except_rgwam (Inl e, w2)"
    using assms(3,4) by (simp add: zone_create_body_def)
  then show "cmd_rgw_zone_create env zone_name realm_token port pl start_radosgw (Some b) w
            = except_rgwam (Inl e, w2)"
    using assms(1,2) by (simp add: cmd_rgw_zone_create_def gate_open)
next
  assume a: "zone_create_loop env start_radosgw xs None w = (Inr l, w1) \<and> unbroken l \<and>
          zone_create env x start_radosgw w1 = (Inr (rc, msg, err), w2) \<and> rc \<noteq> 0"
  then have "zone_create_loop env start_radosgw (xs @ x # ys) None w = (Inr (Some (rc, msg, err)), w2)"
    by (simp add: zone_create_loop_append)
  then have "zone_create_body env zone_name realm_token port pl start_radosgw (Some b) w
      = (Inr (HandleCommandResult rc msg err), w2)"
    using assms(3,4) by (simp add: zone_create_body_def)
  then show "cmd_rgw_zone_create env zone_name realm_token port pl start_radosgw (Some b) w
            = (Inr (HandleCommandResult rc msg err), w2)"
    using assms(1,2) by (simp add: cmd_rgw_zone_create_def gate_open)
next
  show "except_rgwam (Inl (RGWAMException rc msg err), w2)
            = (Inr (HandleCommandResult rc msg err), w2)"
    by simp
next
  assume "\<forall>rc' msg' err'. e \<noteq> RGWAMException rc' msg' err'"
  then show "except_rgwam (Inl e, w2) = (Inl e, w2)"
    by (cases e) simp_all
qed

text \<open>
  Three specs, the second of which fails: the world returned lists \<open>z1\<close> and \<open>z2\<close>
  and not \<open>z3\<close>. The failure is an \<^verbatim>\<open>RGWAMException\<close>, then an orchestrator error that
  the handlers do not catch, then (for \<^verbatim>\<open>rgw zone create\<close>) a non-zero return code.
\<close>

theorem batch_fail_fast_witness:
  "cmd_rgw_realm_bootstrap
       (example_env (Inr (True, [])) (fails_with ''z2'' (Inl (RGWAMException (- 17) ''zone exists'' ''EEXIST''))) three_docs [])
       None None None None None True (Some ''buffer'') []
     = (Inr (HandleCommandResult (- 17) ''zone exists'' ''EEXIST''), [Some ''z1'', Some ''z2''])
   \<and> cmd_rgw_zone_create
       (example_env (Inr (True, [])) (fails_with ''z2'' (Inl (RGWAMException (- 17) ''zone exists'' ''EEXIST''))) three_docs [])
       None None None None True (Some ''buffer'') []
     = (Inr (HandleCommandResult (- 17) ''zone exists'' ''EEXIST''), [Some ''z1'', Some ''z2''])
   \<and> cmd_rgw_realm_bootstrap
       (example_env (Inr (True, [])) (fails_with ''z2'' (Inl (OrchestratorError ''no host''))) three_docs [])
       None None None None None True (Some ''buffer'') []
     = (Inl (OrchestratorError ''no host''), [Some ''z1'', Some ''z2''])
   \<and> cmd_rgw_zone_create
       (example_env (Inr (True, [])) (fails_with ''z2'' (Inl (OrchestratorError ''no host''))) three_docs [])
       None None None None True (Some ''buffer'') []
     = (Inl (OrchestratorError ''no host''), [Some ''z1'', Some ''z2''])
   \<and> cmd_rgw_zone_create
       (example_env (Inr (True, [])) (fails_with ''z2'' (Inr (5, ''out'', ''err''))) three_docs [])
       None None None None True (Some ''buffer'') []
     = (Inr (HandleCommandResult 5 ''out'' ''err''), [Some ''z1'', Some ''z2''])"
proof -
  let ?raise = "fails_with ''z2'' (Inl (RGWAMException (- 17) ''zone exists'' ''EEXIST''))"
  let ?orch = "fails_with ''z2'' (Inl (OrchestratorError ''no host''))"
  let ?ret = "fails_with ''z2'' (Inr (5, ''out'', ''err''))"
  have b: "''buffer'' \<noteq> []" by simp
  have av: "available \<lparr>available = True, message = []\<rparr>" by simp
  note t1 = batch_fail_fast [where ?w1.0 = "[Some ''z1'']" and ?w2.0 = "[Some ''z1'', Some ''z2'']"
        and e = "RGWAMException (- 17) ''zone exists'' ''EEXIST''"
        and rc = "- 17" and msg = "''zone exists''" and err = "''EEXIST''" and l = "Some (0, ''ok'', [])"
        and start_radosgw = True and realm_name = None and zonegroup_name = None
        and zone_name = None and port = None and pl = None and realm_token = None,
      OF status_example_env [of True "[]" ?raise three_docs "[]" "[]"] av b parse_three_docs [of ?raise]]
  note t2 = batch_fail_fast [where ?w1.0 = "[Some ''z1'']" and ?w2.0 = "[Some ''z1'', Some ''z2'']"
        and e = "OrchestratorError ''no host''"
        and rc = 0 and msg = "[]" and err = "[]" and l = "Some (0, ''ok'', [])"
        and start_radosgw = True and realm_name = None and zonegroup_name = None
        and zone_name = None and port = None and pl = None and realm_token = None,
      OF status_example_env [of True "[]" ?orch three_docs "[]" "[]"] av b parse_three_docs [of ?orch]]
  note t3 = batch_fail_fast [where ?w1.0 = "[Some ''z1'']" and ?w2.0 = "[Some ''z1'', Some ''z2'']"
        and e = "OtherError []"
        and rc = 5 and msg = "''out''" and err = "''err''" and l = "Some (0, ''ok'', [])"
        and start_radosgw = True and realm_name = None and zonegroup_name = None
        and zone_name = None and port = None and pl = None and realm_token = None,
      OF status_example_env [of True "[]" ?ret three_docs "[]" "[]"] av b parse_three_docs [of ?ret]]
  show ?thesis
    using t1 t2 t3
    by (simp add: example_env_def fails_with_def spec_zone_def)
qed

text \<open>
  C10. With the orchestrator available and a non-empty input buffer whose documents
  are all \<^verbatim>\<open>None\<close> (\<open>n\<close> of them, \<open>n\<close> being any number), the buffer resolves to no
  spec, the loop of \<^verbatim>\<open>rgw zone create\<close> binds none of \<^verbatim>\<open>retval, out, err\<close>, and the final
  \<^verbatim>\<open>return\<close> raises \<^verbatim>\<open>UnboundLocalError\<close> out of the handler instead of returning a result.
\<close>

theorem zone_create_empty_batch_unbound:
  assumes "status env w = Inr st" and "available st"
      and "b \<noteq> []" and "yaml_safe_load_all env b = Inr (replicate n PNone)"
  shows "parse_rgw_specs env b = Inr []
       \<and> cmd_rgw_zone_create env zone_name realm_token port pl start_radosgw (Some b) w
           = (Inl (UnboundLocalError ''retval''), w)"
proof -
  have p: "parse_rgw_specs env b = Inr []"
    using assms(4) by (simp add: parse_rgw_specs_def)
  have "zone_create_body env zone_name realm_token port pl start_radosgw (Some b) w
          = (Inl (UnboundLocalError ''retval''), w)"
    using assms(3) p by (simp add: zone_create_body_def)
  with assms(1,2) p show ?thesis
    by (simp add: cmd_rgw_zone_create_def gate_open)
qed

theorem zone_create_empty_batch_unbound_witness:
  "cmd_rgw_zone_create (example_env (Inr (True, [])) ok_outcome [PNone, PNone] [])
       None None None None True (Some ''---'') []
     = (Inl (UnboundLocalError ''retval''), [])"
proof -
  have s: "status (example_env (Inr (True, [])) ok_outcome [PNone, PNone] []) []
            = Inr \<lparr>available = True, message = []\<rparr>"
    by (simp add: status_def example_env_def)
  have y: "yaml_safe_load_all (example_env (Inr (True, [])) ok_outcome [PNone, PNone] []) ''---''
            = Inr (replicate 2 PNone)"
    by (simp add: example_env_def numeral_2_eq_2)
  show ?thesis
    using zone_create_empty_batch_unbound [where zone_name = None and realm_token = None
        and port = None and pl = None and start_radosgw = True, OF s _ _ y]
    by simp
qed

subsection \<open>The realm token listing\<close>

lemma realm_summary_entry:
  "realm_summary realm_info = Some entry \<Longrightarrow> realm_token_entry realm_info = Inr entry"
  by (auto simp: realm_summary_def realm_token_entry_def realm_entry_def realm_token_of_def
        dict_get_def bind_result_def split: option.splits if_splits)

lemma realm_tokens_loop_summaries:
  "map realm_summary infos = map Some entries \<Longrightarrow> realm_tokens_loop infos = Inr entries"
proof (induction infos arbitrary: entries)
  case Nil
  then show ?case by simp
next
  case (Cons realm_info infos)
  then obtain entry rest where e: "entries = entry # rest"
    "realm_summary realm_info = Some entry" "map realm_summary infos = map Some rest"
    by (cases entries) auto
  with Cons.IH [OF e(3)] show ?case
    by (simp add: realm_summary_entry)
qed

text \<open>
  C5. When \<^verbatim>\<open>get_realms_info\<close> returns the realms \<open>infos\<close>, each a dictionary with the
  seven keys the handler reads, \<^verbatim>\<open>rgw realm tokens\<close> returns return code 0 and, as its
  output, the JSON list of one entry per realm, in order: the entry of a realm is its
  summary, that is its name with the marker \<^verbatim>\<open>'realm has no master zone'\<close>,
  \<^verbatim>\<open>'master zone has no endpoint'\<close> or \<^verbatim>\<open>'master zone has no access/secret keys'\<close> for
  the first piece that is missing (falsy), and with the encoded token only when none
  is. No realm is left out and none makes the handler raise.
\<close>

theorem list_realm_tokens_one_entry_per_realm:
  assumes "get_realms_info env w = (Inr infos, w')"
      and "map realm_summary infos = map Some entries"
  shows "list_realm_tokens env w
           = (Inr (HandleCommandResult 0 (json_dumps (PList entries)) []), w')
       \<and> length entries = length infos"
proof -
  have "length (map realm_summary infos) = length (map Some entries)"
    using assms(2) by simp
  then have "length entries = length infos" by simp
  then show ?thesis
    using assms by (simp add: list_realm_tokens_def realm_tokens_loop_summaries)
qed

theorem list_realm_tokens_one_entry_per_realm_witness:
  "list_realm_tokens (example_env (Inr (True, [])) ok_outcome [] four_realms) []
     = (Inr (HandleCommandResult 0
          (json_dumps (PList
             [PDict [(''realm'', PStr ''r1''), (''token'', PStr ''realm has no master zone'')],
              PDict [(''realm'', PStr ''r2''), (''token'', PStr ''master zone has no endpoint'')],
              PDict [(''realm'', PStr ''r3''), (''token'', PStr ''master zone has no access/secret keys'')],
              PDict [(''realm'', PStr ''r4''),
                     (''token'', PStr (encode_token
                        \<lparr>rt_realm_name = PStr ''r4'', rt_realm_id = PStr ''0a1b'',
                         rt_is_primary = PBool True, rt_endpoint = PStr ''http://h:80'',
                         rt_access_key = PStr ''AK'', rt_secret = PStr ''SK''\<rparr>))]]))
          []), [])"
proof -
  have g: "get_realms_info (example_env (Inr (True, [])) ok_outcome [] four_realms) []
             = (Inr four_realms, [])"
    by (simp add: example_env_def)
  have m: "map realm_summary four_realms = map Some
             [PDict [(''realm'', PStr ''r1''), (''token'', PStr ''realm has no master zone'')],
              PDict [(''realm'', PStr ''r2''), (''token'', PStr ''master zone has no endpoint'')],
              PDict [(''realm'', PStr ''r3''), (''token'', PStr ''master zone has no access/secret keys'')],
              PDict [(''realm'', PStr ''r4''),
                     (''token'', PStr (encode_token
                        \<lparr>rt_realm_name = PStr ''r4'', rt_realm_id = PStr ''0a1b'',
                         rt_is_primary = PBool True, rt_endpoint = PStr ''http://h:80'',
                         rt_access_key = PStr ''AK'', rt_secret = PStr ''SK''\<rparr>))]]"
    by (simp add: four_realms_def example_realm_def realm_summary_def)
  show ?thesis
    using list_realm_tokens_one_entry_per_realm [OF g m] by simp
qed

subsection \<open>The result contract\<close>

text \<open>
  C4. Two calls at which a handler returns neither a success triple with return code
  0 nor a failure carrying the operation's message and stderr. \<^verbatim>\<open>rgw zone update\<close>,
  when \<^verbatim>\<open>zone_modify\<close> returns the triple \<^verbatim>\<open>(5, 'out', 'err')\<close>, returns the return code 5
  with the message \<^verbatim>\<open>'Zone updated successfully'\<close> and an empty stderr. \<^verbatim>\<open>rgw zone
  create\<close>, given a buffer with one empty document, raises \<^verbatim>\<open>UnboundLocalError\<close>.
\<close>

theorem update_zone_info_keeps_nonzero_retval:
  "update_zone_info (example_env (Inr (True, [])) (fails_with ''z1'' (Inr (5, ''out'', ''err''))) [] [])
       ''r1'' ''zg1'' ''z1'' ''token'' [''http://h:80''] []
     = (Inr (HandleCommandResult 5 ''Zone updated successfully'' []), [Some ''z1''])
   \<and> cmd_rgw_zone_create (example_env (Inr (True, [])) ok_outcome [PNone] [])
       None None None None False (Some ''---'') []
     = (Inl (UnboundLocalError ''retval''), [])"
  by (simp add: update_zone_info_def example_env_def fails_with_def cmd_rgw_zone_create_def
      check_orchestrator_def status_def zone_create_body_def parse_rgw_specs_def)

subsection \<open>The token codec\<close>



text \<open>
  Base64: the decoder accepts exactly the texts the encoder writes, and gives the
  bytes back.
\<close>

lemma b64_char_alphabet: "map b64_char [0..<64] = b64_alphabet"
  by (simp add: b64_char_def b64_alphabet_def upt_conv_Cons char_of_eq_iff take_bit_eq_mod)





































text \<open>
  The parser consumes input: what a successful call leaves over is shorter than what
  it was given. So the length tests that guard the recursive calls of
  \<open>parse_elements\<close> and \<open>parse_members\<close> hold wherever they are reached.
\<close>

lemma parse_value_bracket:
  "parse_value (TLBracket # ts) =
     (if \<exists>r. ts = TRBracket # r then Some (PList [], tl ts)
      else case parse_elements ts of None \<Rightarrow> None | Some (vs, r) \<Rightarrow> Some (PList vs, r))"
  by (simp split: list.splits json_token.splits)

lemma parse_value_brace:
  "parse_value (TLBrace # ts) =
     (if \<exists>r. ts = TRBrace # r then Some (PDict [], tl ts)
      else case parse_members ts of None \<Rightarrow> None
           | Some (kvs, r) \<Rightarrow> Some (PDict (dict_of_pairs kvs), r))"
  by (simp split: list.splits json_token.splits)

lemma parse_elements_Some:
  assumes "parse_elements ts = Some (vs, r)"
  obtains v r0 where "parse_value ts = Some (v, r0)"
    and "r0 = TRBracket # r \<or>
         (\<exists>r1 vs1. r0 = TComma # r1 \<and> length r1 < length ts \<and> parse_elements r1 = Some (vs1, r))"
  using assms
  by (subst (asm) parse_elements.simps)
     (auto split: option.splits list.splits json_token.splits if_splits)

lemma parse_members_Some:
  assumes "parse_members ts = Some (kvs, r)"
  obtains k ts1 v r0 where "ts = TStr k # TColon # ts1" and "parse_value ts1 = Some (v, r0)"
    and "r0 = TRBrace # r \<or>
         (\<exists>r1 kvs1. r0 = TComma # r1 \<and> length r1 < length ts \<and> parse_members r1 = Some (kvs1, r))"
  using assms
  by (subst (asm) parse_members.simps)
     (auto split: option.splits list.splits json_token.splits if_splits)


lemma parse_value_step:
  assumes e: "\<And>vs r. parse_elements ts = Some (vs, r) \<Longrightarrow> length r < length ts"
      and m: "\<And>kvs r. parse_members ts = Some (kvs, r) \<Longrightarrow> length r < length ts"
      and a: "parse_value (t # ts) = Some (v, r)"
  shows "length r < length (t # ts)"
proof (cases t)
  case TLBracket
  have a': "(if \<exists>r. ts = TRBracket # r then Some (PList [], tl ts)
             else case parse_elements ts of None \<Rightarrow> None | Some (vs, r) \<Rightarrow> Some (PList vs, r))
            = Some (v, r)"
    using a unfolding TLBracket parse_value_bracket .
  show ?thesis
  proof (cases "\<exists>r1. ts = TRBracket # r1")
    case True
    with a' show ?thesis by auto
  next
    case False
    with a' obtain vs where "parse_elements ts = Some (vs, r)"
      by (auto split: option.splits)
    from e [OF this] show ?thesis by simp
  qed
next
  case TLBrace
  have a': "(if \<exists>r. ts = TRBrace # r then Some (PDict [], tl ts)
             else case parse_members ts of None \<Rightarrow> None
                  | Some (kvs, r) \<Rightarrow> Some (PDict (dict_of_pairs kvs), r))
            = Some (v, r)"
    using a unfolding TLBrace parse_value_brace .
  show ?thesis
  proof (cases "\<exists>r1. ts = TRBrace # r1")
    case True
    with a' show ?thesis by auto
  next
    case False
    with a' obtain kvs where "parse_members ts = Some (kvs, r)"
      by (auto split: option.splits)
    from m [OF this] show ?thesis by simp
  qed
qed (use a in auto)

lemma parse_consumes:
  "(\<forall>v r. parse_value ts = Some (v, r) \<longrightarrow> length r < length ts) \<and>
   (\<forall>vs r. parse_elements ts = Some (vs, r) \<longrightarrow> length r < length ts) \<and>
   (\<forall>kvs r. parse_members ts = Some (kvs, r) \<longrightarrow> length r < length ts)"
proof (induction "length ts" arbitrary: ts rule: less_induct)
  case less
  have V: "length r < length ts" if "parse_value ts = Some (v, r)" for v r
  proof (cases ts)
    case Nil
    with that show ?thesis by simp
  next
    case (Cons t ts0)
    have l: "length ts0 < length ts" using Cons by simp
    show ?thesis
      unfolding Cons
    proof (rule parse_value_step)
      show "parse_value (t # ts0) = Some (v, r)" using that Cons by simp
      show "length r' < length ts0" if "parse_elements ts0 = Some (vs, r')" for vs r'
        using less.hyps [OF l] that by blast
      show "length r' < length ts0" if "parse_members ts0 = Some (kvs, r')" for kvs r'
        using less.hyps [OF l] that by blast
    qed
  qed
  have E: "length r < length ts" if "parse_elements ts = Some (vs, r)" for vs r
  proof -
    from that obtain v r0 where pv: "parse_value ts = Some (v, r0)"
      and c: "r0 = TRBracket # r \<or>
         (\<exists>r1 vs1. r0 = TComma # r1 \<and> length r1 < length ts \<and> parse_elements r1 = Some (vs1, r))"
      by (rule parse_elements_Some)
    from V [OF pv] have l0: "length r0 < length ts" .
    from c show ?thesis
    proof
      assume "r0 = TRBracket # r"
      with l0 show ?thesis by simp
    next
      assume "\<exists>r1 vs1. r0 = TComma # r1 \<and> length r1 < length ts \<and> parse_elements r1 = Some (vs1, r)"
      then obtain r1 vs1 where r1: "length r1 < length ts" "parse_elements r1 = Some (vs1, r)"
        by blast
      from less.hyps [OF r1(1)] r1(2) have "length r < length r1" by blast
      with r1(1) show ?thesis by simp
    qed
  qed
  have M: "length r < length ts" if "parse_members ts = Some (kvs, r)" for kvs r
  proof -
    from that obtain k ts1 v r0 where ts: "ts = TStr k # TColon # ts1"
      and pv: "parse_value ts1 = Some (v, r0)"
      and c: "r0 = TRBrace # r \<or>
         (\<exists>r1 kvs1. r0 = TComma # r1 \<and> length r1 < length ts \<and> parse_members r1 = Some (kvs1, r))"
      by (rule parse_members_Some)
    have "length ts1 < length ts" using ts by simp
    from less.hyps [OF this] pv have l0: "length r0 < length ts1" by blast
    from c show ?thesis
    proof
      assume "r0 = TRBrace # r"
      with l0 ts show ?thesis by simp
    next
      assume "\<exists>r1 kvs1. r0 = TComma # r1 \<and> length r1 < length ts \<and> parse_members r1 = Some (kvs1, r)"
      then obtain r1 kvs1 where r1: "length r1 < length ts" "parse_members r1 = Some (kvs1, r)"
        by blast
      from less.hyps [OF r1(1)] r1(2) have "length r < length r1" by blast
      with r1(1) show ?thesis by simp
    qed
  qed
  from V E M show ?case by blast
qed




text \<open>
  The encoding of the example token, as Python computes it for the same six values,
  and strings that the decoder refuses: one that is not base64, bytes that are not
  UTF-8, a text that is not JSON, an object without \<^verbatim>\<open>secret\<close>, an object with a
  seventh field, and an object whose \<^verbatim>\<open>is_primary\<close> is a string.
\<close>

lemma encode_example_token:
  "encode_token example_token =
     ''eyJyZWFsbV9uYW1lIjogInI0IiwgInJlYWxtX2lkIjogIjBhMWIiLCAiaXNfcHJpbWFyeSI6IHRydWUsICJlbmRwb2ludCI6ICJodHRwOi8vaDo4MCIsICJhY2Nlc3Nfa2V5IjogIkFLIiwgInNlY3JldCI6ICJTSyJ9''"
  by code_simp

lemma decode_token_rejects:
  "decode_token ''not base64'' = Inl TokenDecodeError"
  "decode_token (b64encode [CHR 0xFF]) = Inl TokenDecodeError"
  "decode_token (b64encode (utf8_encode ''{'')) = Inl TokenDecodeError"
  "decode_token (b64encode (utf8_encode (json_dumps (PDict (butlast (token_fields example_token))))))
     = Inl TokenDecodeError"
  "decode_token (b64encode (utf8_encode (json_dumps
       (PDict (token_fields example_token @ [(''zone'', PStr ''z1'')])))))
     = Inl TokenDecodeError"
  "decode_token (b64encode (utf8_encode (json_dumps
       (PDict (token_fields (example_token\<lparr>rt_is_primary := PStr ''yes''\<rparr>))))))
     = Inl TokenDecodeError"
  by code_simp+

end
